theory Spec2Isabelle
  imports Main
begin

section \<open>Lexical path functions of the Go standard library (Unix)\<close>

text \<open>
  The repository calls \<open>strings.HasPrefix\<close>, \<open>filepath.Clean\<close>, \<open>filepath.Join\<close>,
  \<open>filepath.IsAbs\<close>, \<open>filepath.Base\<close> and \<open>filepath.Rel\<close>.  They are purely lexical on
  Unix (separator \<open>/\<close>, no volume names) and are transcribed here from the library's
  algorithms: a Go string is a \<open>string\<close>, a slice \<open>s[i:]\<close> is the remaining suffix.
\<close>

definition isSep :: "char \<Rightarrow> bool" where
  "isSep c = (c = CHR ''/'')"

fun HasPrefix :: "string \<Rightarrow> string \<Rightarrow> bool" where
  "HasPrefix s [] = True"
| "HasPrefix [] (p # ps) = False"
| "HasPrefix (c # cs) (p # ps) = (c = p \<and> HasPrefix cs ps)"

fun strings_Join :: "string list \<Rightarrow> string \<Rightarrow> string" where
  "strings_Join [] sep = []"
| "strings_Join [e] sep = e"
| "strings_Join (e # e' # es) sep = e @ sep @ strings_Join (e' # es) sep"

text \<open>
  \<open>filepath.Clean\<close>, the \<open>..\<close> case: \<open>out.w--\<close> followed by
  \<open>for out.w > dotdot && !IsPathSeparator(out.index(out.w)) { out.w-- }\<close>.
  The argument \<open>w\<close> is the write index after the first decrement.
\<close>

function backtrack :: "string \<Rightarrow> nat \<Rightarrow> nat \<Rightarrow> nat" where
  "backtrack buf dotdot w =
     (if w > dotdot \<and> \<not> isSep (buf ! w) then backtrack buf dotdot (w - 1) else w)"
  by pat_completeness auto
termination
  by (relation "measure (\<lambda>(buf, dotdot, w). w)") auto

declare backtrack.simps [simp del]

text \<open>
  The main loop of \<open>filepath.Clean\<close>: \<open>rest\<close> is \<open>path[r:]\<close>, \<open>out\<close> is the output
  written so far (\<open>out.w\<close> is its length), \<open>dotdot\<close> the index where \<open>..\<close> must stop.
\<close>

function clean_loop :: "bool \<Rightarrow> string \<Rightarrow> string \<Rightarrow> nat \<Rightarrow> string" where
  "clean_loop rooted [] out dotdot = out"
| "clean_loop rooted (c # cs) out dotdot =
     (if isSep c then clean_loop rooted cs out dotdot
      else if c = CHR ''.'' \<and> (cs = [] \<or> isSep (hd cs)) then clean_loop rooted cs out dotdot
      else if c = CHR ''.'' \<and> hd cs = CHR ''.'' \<and> (tl cs = [] \<or> isSep (hd (tl cs))) then
        (if length out > dotdot then
           clean_loop rooted (tl cs) (take (backtrack out dotdot (length out - 1)) out) dotdot
         else if \<not> rooted then
           (let out' = (if length out > 0 then out @ ''/'' else out) @ ''..''
            in clean_loop rooted (tl cs) out' (length out'))
         else clean_loop rooted (tl cs) out dotdot)
      else
        (let out' = (if (rooted \<and> length out \<noteq> 1) \<or> (\<not> rooted \<and> length out \<noteq> 0)
                     then out @ ''/'' else out)
         in clean_loop rooted (dropWhile (\<lambda>x. \<not> isSep x) cs)
              (out' @ c # takeWhile (\<lambda>x. \<not> isSep x) cs) dotdot))"
  by pat_completeness auto
termination
  by (relation "measure (\<lambda>(rooted, rest, out, dotdot). length rest)")
     (auto simp: less_Suc_eq_le length_dropWhile_le intro: le_trans [OF diff_le_self])

declare clean_loop.simps [simp del]

definition Clean :: "string \<Rightarrow> string" where
  "Clean path =
     (if path = [] then ''.''
      else
        (let rooted = isSep (hd path);
             out = (if rooted then clean_loop True (tl path) ''/'' 1
                    else clean_loop False path [] 0)
         in if out = [] then ''.'' else out))"

fun Join :: "string list \<Rightarrow> string" where
  "Join [] = []"
| "Join (e # es) = (if e \<noteq> [] then Clean (strings_Join (e # es) ''/'') else Join es)"

definition IsAbs :: "string \<Rightarrow> bool" where
  "IsAbs path = HasPrefix path ''/''"

text \<open>\<open>filepath.Base\<close>: strip trailing separators, keep what follows the last separator.\<close>

definition Base :: "string \<Rightarrow> string" where
  "Base path =
     (if path = [] then ''.''
      else
        (let p = rev (dropWhile isSep (rev path));
             e = rev (takeWhile (\<lambda>x. \<not> isSep x) (rev p))
         in if e = [] then ''/'' else e))"

text \<open>
  The element-matching loop of \<open>filepath.Rel\<close>.  At the head of each iteration
  \<open>b0 = bi\<close> and \<open>t0 = ti\<close>; the arguments are \<open>base[b0:]\<close> and \<open>targ[t0:]\<close>.  The result is
  \<open>(base[b0:], base[b0:bi], targ[t0:])\<close> when the loop is left.
\<close>

function rel_loop :: "string \<Rightarrow> string \<Rightarrow> string \<times> string \<times> string" where
  "rel_loop b t =
     (if b = [] \<or> t = [] then (b, [], t)
      else
        (let be = takeWhile (\<lambda>x. \<not> isSep x) b;
             te = takeWhile (\<lambda>x. \<not> isSep x) t
         in if te \<noteq> be then (b, be, t)
            else rel_loop (drop (Suc (length be)) b) (drop (Suc (length te)) t)))"
  by pat_completeness auto
termination
  by (relation "measure (\<lambda>(b, t). length b)") auto

declare rel_loop.simps [simp del]

text \<open>\<open>filepath.Rel\<close>; \<open>None\<close> is the error return.\<close>

definition Rel :: "string \<Rightarrow> string \<Rightarrow> string option" where
  "Rel basepath targpath =
     (let base = Clean basepath; targ = Clean targpath
      in if targ = base then Some ''.''
         else
           (let base = (if base = ''.'' then [] else base);
                baseSlashed = (base \<noteq> [] \<and> isSep (hd base));
                targSlashed = (targ \<noteq> [] \<and> isSep (hd targ))
            in if baseSlashed \<noteq> targSlashed then None
               else
                 (case rel_loop base targ of
                    (brest, belem, trest) \<Rightarrow>
                      if belem = ''..'' then None
                      else if brest \<noteq> [] then
                        Some (''..'' @ concat (replicate (length (filter isSep brest)) ''/..'')
                              @ (if trest \<noteq> [] then ''/'' @ trest else []))
                      else Some trest)))"

section \<open>The host: what the operating system answers\<close>

datatype fs_error = ErrNotExist | ErrPermission | ErrOther

definition IsNotExist :: "fs_error \<Rightarrow> bool" where
  "IsNotExist e = (e = ErrNotExist)"

text \<open>
  \<open>UserHomeDir\<close> and \<open>Getwd\<close> are \<open>None\<close> when the call returns an error;
  \<open>Stat p\<close> is \<open>None\<close> on an error and otherwise \<open>Some (info.IsDir())\<close>;
  \<open>Getenv\<close> returns the empty string for an unset variable, as \<open>os.Getenv\<close> does.
\<close>

record host =
  UserHomeDir :: "string option"
  Getwd :: "string option"
  EvalSymlinks :: "string \<Rightarrow> fs_error + string"
  Stat :: "string \<Rightarrow> bool option"
  Getenv :: "string \<Rightarrow> string"

section \<open>internal/security/mounts.go\<close>

datatype error =
    EmptyPath
  | HomeDirError
  | CwdError
  | ResolveError fs_error
  | PathDenied string
  | PathRequiresCredential string
  | InvalidWorkDir error
  | InvalidMountPath string error
  | MountPathDenied string error

definition HardcodedDeniedPaths :: "string list" where
  "HardcodedDeniedPaths =
     [''~/.gnupg'', ''~/.netrc'', ''~/.docker/config.json'', ''~/.kube/config'',
      ''~/.aws/credentials'']"

definition CredentialControlledPaths :: "string list" where
  "CredentialControlledPaths = [''~/.ssh'', ''~/.aws'', ''~/.config/gh'', ''~/.config/gcloud'']"

text \<open>The later steps of \<open>ExpandPath\<close>: clean and make absolute, then resolve symlinks.\<close>

definition cleanAbs :: "host \<Rightarrow> string \<Rightarrow> error + string" where
  "cleanAbs h path =
     (let path = Clean path
      in if \<not> IsAbs path then
           (case Getwd h of
              None \<Rightarrow> Inl CwdError
            | Some cwd \<Rightarrow> Inr (Join [cwd, path]))
         else Inr path)"

definition resolve :: "host \<Rightarrow> string \<Rightarrow> error + string" where
  "resolve h path =
     (case EvalSymlinks h path of
        Inl err \<Rightarrow> if IsNotExist err then Inr path else Inl (ResolveError err)
      | Inr resolved \<Rightarrow> Inr resolved)"

text \<open>The first step of \<open>ExpandPath\<close>: a leading \<open>~/\<close> or a lone \<open>~\<close> is replaced by the home directory.\<close>

definition expandHome :: "host \<Rightarrow> string \<Rightarrow> error + string" where
  "expandHome h path =
     (if HasPrefix path ''~/'' then
        (case UserHomeDir h of
           None \<Rightarrow> Inl HomeDirError
         | Some home \<Rightarrow> Inr (Join [home, drop 2 path]))
      else if path = ''~'' then
        (case UserHomeDir h of
           None \<Rightarrow> Inl HomeDirError
         | Some home \<Rightarrow> Inr home)
      else Inr path)"

definition ExpandPath :: "host \<Rightarrow> string \<Rightarrow> error + string" where
  "ExpandPath h path =
     (if path = [] then Inl EmptyPath
      else
        (case expandHome h path of
           Inl e \<Rightarrow> Inl e
         | Inr path \<Rightarrow>
             (case cleanAbs h path of
                Inl e \<Rightarrow> Inl e
              | Inr path \<Rightarrow> resolve h path)))"

definition expandTilde :: "string \<Rightarrow> string \<Rightarrow> string" where
  "expandTilde path home =
     (if HasPrefix path ''~/'' then Join [home, drop 2 path]
      else if path = ''~'' then home
      else path)"

definition pathMatches :: "string \<Rightarrow> string \<Rightarrow> bool" where
  "pathMatches path target =
     (if path = target then True
      else
        (case Rel target path of
           None \<Rightarrow> False
         | Some rel \<Rightarrow> \<not> HasPrefix rel ''..''))"

text \<open>The \<open>for _, denied := range ...\<close> loops: the first matching rule is returned.\<close>

fun firstMatch :: "string \<Rightarrow> string \<Rightarrow> string list \<Rightarrow> string option" where
  "firstMatch path home [] = None"
| "firstMatch path home (rule # rules) =
     (if pathMatches path (expandTilde rule home) then Some rule
      else firstMatch path home rules)"

definition ValidateMountPath :: "host \<Rightarrow> string \<Rightarrow> error + unit" where
  "ValidateMountPath h path =
     (case UserHomeDir h of
        None \<Rightarrow> Inl HomeDirError
      | Some home \<Rightarrow>
          (case firstMatch path home HardcodedDeniedPaths of
             Some denied \<Rightarrow> Inl (PathDenied denied)
           | None \<Rightarrow> Inr ()))"

definition ValidateMountPathStrict :: "host \<Rightarrow> string \<Rightarrow> error + unit" where
  "ValidateMountPathStrict h path =
     (case ValidateMountPath h path of
        Inl err \<Rightarrow> Inl err
      | Inr u \<Rightarrow>
          (case UserHomeDir h of
             None \<Rightarrow> Inl HomeDirError
           | Some home \<Rightarrow>
               (case firstMatch path home CredentialControlledPaths of
                  Some controlled \<Rightarrow> Inl (PathRequiresCredential controlled)
                | None \<Rightarrow> Inr ())))"

definition PathExists :: "host \<Rightarrow> string \<Rightarrow> bool \<Rightarrow> bool" where
  "PathExists h path expectDir =
     (case Stat h path of None \<Rightarrow> False | Some isDir \<Rightarrow> isDir = expectDir)"

definition FileExists :: "host \<Rightarrow> string \<Rightarrow> bool" where
  "FileExists h path = PathExists h path False"

definition DirExists :: "host \<Rightarrow> string \<Rightarrow> bool" where
  "DirExists h path = PathExists h path True"

section \<open>internal/config and internal/container: constants and types\<close>

definition AuthAuto :: string where "AuthAuto = ''auto''"
definition AuthSession :: string where "AuthSession = ''session''"
definition AuthAPIKey :: string where "AuthAPIKey = ''api-key''"

definition CredentialAuto :: string where "CredentialAuto = ''auto''"
definition CredentialEnabled :: string where "CredentialEnabled = ''enabled''"
definition CredentialDisabled :: string where "CredentialDisabled = ''disabled''"

definition SessionNone :: string where "SessionNone = ''none''"
definition SessionReadOnly :: string where "SessionReadOnly = ''readonly''"
definition SessionReadWrite :: string where "SessionReadWrite = ''readwrite''"

record Mount =
  Source :: string
  Target :: string
  ReadOnly :: bool

record MountEntry =
  Path :: string
  EntryReadOnly :: bool

record MountsConfig =
  Defaults :: "MountEntry list"

record ClaudeConfig =
  Auth :: string
  SessionDir :: string

record SSHConfig =
  Enabled :: bool
  Keys :: "string list"
  KnownHosts :: bool
  AgentForwarding :: bool

record CredentialsConfig =
  GitHub :: string
  GCloud :: string
  SSH :: SSHConfig

record Config =
  Mounts :: MountsConfig
  Claude :: ClaudeConfig
  Credentials :: CredentialsConfig

type_synonym env = "string \<rightharpoonup> string"

section \<open>internal/credentials\<close>

text \<open>The \<open>for _, v := range envVars\<close> loop of \<open>shouldEnable\<close>, with its final \<open>return true\<close>.\<close>

fun autoDetect :: "host \<Rightarrow> string list \<Rightarrow> bool" where
  "autoDetect h [] = True"
| "autoDetect h (v # vs) = (if Getenv h v \<noteq> [] then True else autoDetect h vs)"

definition shouldEnable :: "host \<Rightarrow> string \<Rightarrow> string list \<Rightarrow> bool" where
  "shouldEnable h setting envVars =
     (if setting = CredentialEnabled then True
      else if setting = CredentialDisabled then False
      else if setting = CredentialAuto then autoDetect h envVars
      else True)"

definition CollectClaudeAuth :: "Config \<Rightarrow> host \<Rightarrow> Mount list \<times> env" where
  "CollectClaudeAuth cfg h =
     (case UserHomeDir h of
        None \<Rightarrow> ([], Map.empty)
      | Some home \<Rightarrow>
          (let auth = (if Auth (Claude cfg) = [] then AuthAuto else Auth (Claude cfg));
               env = (if auth = AuthAuto \<or> auth = AuthAPIKey then
                        (if Getenv h ''ANTHROPIC_API_KEY'' \<noteq> []
                         then [''ANTHROPIC_API_KEY'' \<mapsto> Getenv h ''ANTHROPIC_API_KEY'']
                         else Map.empty)
                      else Map.empty);
               mounts = (if auth = AuthAuto \<or> auth = AuthSession then
                           (let sessionDir = (if SessionDir (Claude cfg) = [] then SessionReadOnly
                                              else SessionDir (Claude cfg))
                            in if sessionDir \<noteq> SessionNone then
                                 (let claudePath = Join [home, ''.claude'']
                                  in if DirExists h claudePath then
                                       [\<lparr>Source = claudePath, Target = ''/tmp/.claude'',
                                         ReadOnly = (sessionDir = SessionReadOnly)\<rparr>]
                                     else [])
                               else [])
                         else [])
           in (mounts, env)))"

text \<open>
  \<open>CollectExternalCredentials\<close> runs three blocks in sequence on the pair
  \<open>(mounts, env)\<close>: GitHub, Google Cloud, SSH.  Each block is a function on that pair.
\<close>

definition githubCredentials :: "Config \<Rightarrow> host \<Rightarrow> string \<Rightarrow> Mount list \<times> env \<Rightarrow> Mount list \<times> env" where
  "githubCredentials cfg h home st =
     (case st of (mounts, env) \<Rightarrow>
        if shouldEnable h (GitHub (Credentials cfg)) [''GH_TOKEN'', ''GITHUB_TOKEN''] then
          (if Getenv h ''GH_TOKEN'' \<noteq> [] then
             (mounts, env(''GH_TOKEN'' \<mapsto> Getenv h ''GH_TOKEN''))
           else if Getenv h ''GITHUB_TOKEN'' \<noteq> [] then
             (mounts, env(''GH_TOKEN'' \<mapsto> Getenv h ''GITHUB_TOKEN''))
           else
             (let ghConfigPath = Join [home, ''.config'', ''gh'', ''hosts.yml'']
              in if FileExists h ghConfigPath then
                   (mounts @ [\<lparr>Source = ghConfigPath, Target = ''/root/.config/gh/hosts.yml'',
                               ReadOnly = True\<rparr>], env)
                 else (mounts, env)))
        else (mounts, env))"

definition gcloudCredentials :: "Config \<Rightarrow> host \<Rightarrow> string \<Rightarrow> Mount list \<times> env \<Rightarrow> Mount list \<times> env" where
  "gcloudCredentials cfg h home st =
     (case st of (mounts, env) \<Rightarrow>
        if shouldEnable h (GCloud (Credentials cfg)) [''GOOGLE_APPLICATION_CREDENTIALS''] then
          (let adcPath = Join [home, ''.config'', ''gcloud'', ''application_default_credentials.json''];
               st1 = (if FileExists h adcPath then
                        (mounts @ [\<lparr>Source = adcPath,
                                    Target = ''/root/.config/gcloud/application_default_credentials.json'',
                                    ReadOnly = True\<rparr>],
                         env(''GOOGLE_APPLICATION_CREDENTIALS'' \<mapsto>
                               ''/root/.config/gcloud/application_default_credentials.json''))
                      else (mounts, env));
               customPath = Getenv h ''GOOGLE_APPLICATION_CREDENTIALS''
           in if customPath \<noteq> [] \<and> FileExists h customPath then
                (fst st1 @ [\<lparr>Source = customPath,
                              Target = ''/root/.config/gcloud/application_default_credentials.json'',
                              ReadOnly = True\<rparr>],
                 (snd st1)(''GOOGLE_APPLICATION_CREDENTIALS'' \<mapsto>
                             ''/root/.config/gcloud/application_default_credentials.json''))
              else st1)
        else (mounts, env))"

text \<open>The key loop of \<open>collectSSHCredentials\<close>; a key that fails to expand is skipped.\<close>

fun sshKeyMounts :: "host \<Rightarrow> string list \<Rightarrow> Mount list \<Rightarrow> Mount list" where
  "sshKeyMounts h [] mounts = mounts"
| "sshKeyMounts h (keyPath # keys) mounts =
     (case ExpandPath h keyPath of
        Inl err \<Rightarrow> sshKeyMounts h keys mounts
      | Inr expanded \<Rightarrow>
          if FileExists h expanded then
            sshKeyMounts h keys
              (mounts @ [\<lparr>Source = expanded, Target = Join [''/root/.ssh'', Base expanded],
                          ReadOnly = True\<rparr>])
          else sshKeyMounts h keys mounts)"

definition collectSSHCredentials :: "Config \<Rightarrow> host \<Rightarrow> string \<Rightarrow> Mount list \<times> env" where
  "collectSSHCredentials cfg h home =
     (let ssh = SSH (Credentials cfg);
          mounts = sshKeyMounts h (Keys ssh) [];
          mounts = (if KnownHosts ssh then
                      (let knownHostsPath = Join [home, ''.ssh'', ''known_hosts'']
                       in if FileExists h knownHostsPath then
                            mounts @ [\<lparr>Source = knownHostsPath, Target = ''/root/.ssh/known_hosts'',
                                        ReadOnly = True\<rparr>]
                          else mounts)
                    else mounts)
      in if AgentForwarding ssh \<and> Getenv h ''SSH_AUTH_SOCK'' \<noteq> [] then
           (mounts @ [\<lparr>Source = Getenv h ''SSH_AUTH_SOCK'', Target = ''/tmp/ssh-agent.sock'',
                       ReadOnly = False\<rparr>],
            [''SSH_AUTH_SOCK'' \<mapsto> ''/tmp/ssh-agent.sock''])
         else (mounts, Map.empty))"

text \<open>\<open>for k, v := range sshEnv { env[k] = v }\<close> is the map override \<open>env ++ sshEnv\<close>.\<close>

definition sshCredentials :: "Config \<Rightarrow> host \<Rightarrow> string \<Rightarrow> Mount list \<times> env \<Rightarrow> Mount list \<times> env" where
  "sshCredentials cfg h home st =
     (case st of (mounts, env) \<Rightarrow>
        if Enabled (SSH (Credentials cfg)) then
          (case collectSSHCredentials cfg h home of
             (sshMounts, sshEnv) \<Rightarrow> (mounts @ sshMounts, env ++ sshEnv))
        else (mounts, env))"

definition CollectExternalCredentials :: "Config \<Rightarrow> host \<Rightarrow> error + Mount list \<times> env" where
  "CollectExternalCredentials cfg h =
     (case UserHomeDir h of
        None \<Rightarrow> Inl HomeDirError
      | Some home \<Rightarrow>
          Inr (sshCredentials cfg h home
                 (gcloudCredentials cfg h home
                    (githubCredentials cfg h home ([], Map.empty)))))"

section \<open>internal/cli: the mounts assembled by runContainer\<close>

record flags =
  workdir :: string
  mount :: "string list"
  mount_ro :: "string list"

text \<open>
  The loops over \<open>--mount\<close> and \<open>--mount-ro\<close>: a path that fails to expand or to validate
  aborts the command with a wrapped error.
\<close>

fun flagMounts :: "host \<Rightarrow> bool \<Rightarrow> string list \<Rightarrow> Mount list \<Rightarrow> error + Mount list" where
  "flagMounts h ro [] mounts = Inr mounts"
| "flagMounts h ro (m # ms) mounts =
     (case ExpandPath h m of
        Inl err \<Rightarrow> Inl (InvalidMountPath m err)
      | Inr expanded \<Rightarrow>
          (case ValidateMountPath h expanded of
             Inl err \<Rightarrow> Inl (MountPathDenied m err)
           | Inr u \<Rightarrow>
               flagMounts h ro ms
                 (mounts @ [\<lparr>Source = expanded, Target = expanded, ReadOnly = ro\<rparr>])))"

text \<open>The loop over the configured default mounts: a failing entry is skipped with a warning.\<close>

fun defaultMounts :: "host \<Rightarrow> MountEntry list \<Rightarrow> Mount list \<Rightarrow> Mount list" where
  "defaultMounts h [] mounts = mounts"
| "defaultMounts h (dm # dms) mounts =
     (case ExpandPath h (Path dm) of
        Inl err \<Rightarrow> defaultMounts h dms mounts
      | Inr expanded \<Rightarrow>
          (case ValidateMountPath h expanded of
             Inl err \<Rightarrow> defaultMounts h dms mounts
           | Inr u \<Rightarrow>
               defaultMounts h dms
                 (mounts @ [\<lparr>Source = expanded, Target = expanded,
                             ReadOnly = EntryReadOnly dm\<rparr>])))"

text \<open>\<open>runContainer\<close> up to the end of the default mounts.\<close>

definition runContainer_mounts :: "host \<Rightarrow> Config \<Rightarrow> flags \<Rightarrow> error + Mount list" where
  "runContainer_mounts h cfg fl =
     (case (if workdir fl = [] then
              (case Getwd h of None \<Rightarrow> Inl CwdError | Some wd \<Rightarrow> Inr wd)
            else Inr (workdir fl)) of
        Inl err \<Rightarrow> Inl err
      | Inr workDir \<Rightarrow>
          (case ExpandPath h workDir of
             Inl err \<Rightarrow> Inl (InvalidWorkDir err)
           | Inr workDir \<Rightarrow>
               (case flagMounts h False (mount fl)
                       [\<lparr>Source = workDir, Target = ''/workspace'', ReadOnly = False\<rparr>] of
                  Inl err \<Rightarrow> Inl err
                | Inr mounts \<Rightarrow>
                    (case flagMounts h True (mount_ro fl) mounts of
                       Inl err \<Rightarrow> Inl err
                     | Inr mounts \<Rightarrow>
                         Inr (defaultMounts h (Defaults (Mounts cfg)) mounts)))))"

section \<open>internal/container: the result of Runner.Run\<close>

text \<open>
  \<open>Run\<close> talks to the container engine; what the engine and the terminal answer is the
  record \<open>engine\<close>.  \<open>selected\<close> is the case the final \<open>select\<close> takes: a value from
  \<open>errCh\<close> (whether the error is non-nil, and whether \<open>ctx.Err()\<close> is non-nil at that
  moment), a status from \<open>statusCh\<close>, or \<open>ctx.Done()\<close>.  \<open>outputDone\<close> says whether the
  receive \<open><-outputDone\<close> ever completes; when it does not, \<open>Run\<close> does not return,
  which is the value \<open>None\<close>.  The status code is an \<open>int64\<close> that is only compared
  with 0 and printed, so it is an \<open>int\<close> here.  The deferred removal of the container and the relays do
  not change the returned error and are left out.
\<close>

datatype create_result = Created | NoSuchImage | CreateError

datatype wait_event = ErrCh bool bool | StatusCh int | CtxDone

datatype run_error =
    InvalidMemoryLimit
  | ImageNotFound
  | CreateFailed
  | AttachFailed
  | StartFailed
  | RawTerminalFailed
  | WaitFailed
  | ExitedWithCode int
  | ContextCanceled

record engine =
  RAMInBytesOk :: bool
  IsTerminal :: bool
  ContainerCreate :: create_result
  ContainerAttachOk :: bool
  ContainerStartOk :: bool
  SetRawTerminalOk :: bool
  selected :: wait_event
  outputDone :: bool

definition waitForExit :: "engine \<Rightarrow> (run_error + unit) option" where
  "waitForExit e =
     (case selected e of
        ErrCh isErr ctxErr \<Rightarrow>
          if \<not> outputDone e then None
          else if isErr \<and> \<not> ctxErr then Some (Inl WaitFailed)
          else Some (Inr ())
      | StatusCh statusCode \<Rightarrow>
          if \<not> outputDone e then None
          else if statusCode \<noteq> 0 then Some (Inl (ExitedWithCode statusCode))
          else Some (Inr ())
      | CtxDone \<Rightarrow> Some (Inl ContextCanceled))"

definition Run :: "engine \<Rightarrow> string \<Rightarrow> (run_error + unit) option" where
  "Run e memoryLimit =
     (if memoryLimit \<noteq> [] \<and> \<not> RAMInBytesOk e then Some (Inl InvalidMemoryLimit)
      else
        (case ContainerCreate e of
           NoSuchImage \<Rightarrow> Some (Inl ImageNotFound)
         | CreateError \<Rightarrow> Some (Inl CreateFailed)
         | Created \<Rightarrow>
             if \<not> ContainerAttachOk e then Some (Inl AttachFailed)
             else if \<not> ContainerStartOk e then Some (Inl StartFailed)
             else if IsTerminal e \<and> \<not> SetRawTerminalOk e then Some (Inl RawTerminalFailed)
             else waitForExit e))"

section \<open>Example hosts, configurations and engines\<close>

text \<open>
  \<open>demoHost\<close>: home \<open>/home/u\<close>, no symlinks, every path resolves, the session directory
  and the GitHub hosts file exist, no environment variable is set.
\<close>

definition demoHost :: host where
  "demoHost =
     \<lparr>UserHomeDir = Some ''/home/u'',
      Getwd = Some ''/home/u/project'',
      EvalSymlinks = (\<lambda>p. Inr p),
      Stat = (\<lambda>p. if p = ''/home/u/.claude'' then Some True
                   else if p = ''/home/u/.config/gh/hosts.yml'' then Some False
                   else None),
      Getenv = (\<lambda>v. [])\<rparr>"

text \<open>\<open>tokenHost\<close>: as \<open>demoHost\<close>, with both GitHub tokens and a Google credentials path set.\<close>

definition tokenHost :: host where
  "tokenHost =
     demoHost\<lparr>Getenv := (\<lambda>v. if v = ''GH_TOKEN'' then ''t1''
                              else if v = ''GITHUB_TOKEN'' then ''t2''
                              else if v = ''GOOGLE_APPLICATION_CREDENTIALS''
                                then ''/home/u/.config/gh/hosts.yml''
                              else [])\<rparr>"

text \<open>\<open>freshHost\<close>: as \<open>demoHost\<close>, but nothing exists on disk yet.\<close>

definition freshHost :: host where
  "freshHost = demoHost\<lparr>EvalSymlinks := (\<lambda>p. Inl ErrNotExist), Stat := (\<lambda>p. None)\<rparr>"

definition demoConfig :: Config where
  "demoConfig =
     \<lparr>Mounts = \<lparr>Defaults = []\<rparr>,
      Claude = \<lparr>Auth = ''auto'', SessionDir = ''readwrite''\<rparr>,
      Credentials = \<lparr>GitHub = ''auto'', GCloud = ''auto'',
                      SSH = \<lparr>Enabled = False, Keys = [], KnownHosts = True,
                              AgentForwarding = True\<rparr>\<rparr>\<rparr>"

definition lockedConfig :: Config where
  "lockedConfig =
     demoConfig\<lparr>Credentials := \<lparr>GitHub = ''disabled'', GCloud = ''disabled'',
                      SSH = \<lparr>Enabled = False, Keys = [], KnownHosts = True,
                              AgentForwarding = True\<rparr>\<rparr>\<rparr>"

text \<open>\<open>typoConfig\<close>: misspelled settings, as a hand-edited configuration file may hold.\<close>

definition typoConfig :: Config where
  "typoConfig =
     demoConfig\<lparr>Claude := \<lparr>Auth = ''auto'', SessionDir = ''read-only''\<rparr>,
       Credentials := \<lparr>GitHub = ''disabeld'', GCloud = [],
                      SSH = \<lparr>Enabled = False, Keys = [], KnownHosts = True,
                              AgentForwarding = True\<rparr>\<rparr>\<rparr>"

text \<open>\<open>demoEngine n\<close>: every engine call succeeds and the container exits with status \<open>n\<close>.\<close>

definition demoEngine :: "int \<Rightarrow> engine" where
  "demoEngine n =
     \<lparr>RAMInBytesOk = True, IsTerminal = True, ContainerCreate = Created,
      ContainerAttachOk = True, ContainerStartOk = True, SetRawTerminalOk = True,
      selected = StatusCh n, outputDone = True\<rparr>"

section \<open>Path authorization\<close>

subsection \<open>What holds of the matcher\<close>

lemma pathMatches_refl: "pathMatches p p"
  by (simp add: pathMatches_def)

lemma firstMatch_exact:
  "rule \<in> set rules \<Longrightarrow> firstMatch (expandTilde rule home) home rules \<noteq> None"
  by (induction rules) (auto simp: pathMatches_refl)

text \<open>A path that is exactly a hard-denied rule is denied, whatever the home directory is.\<close>

lemma ValidateMountPath_exact_rule:
  assumes "UserHomeDir h = Some home" and "rule \<in> set HardcodedDeniedPaths"
  shows "\<exists>denied. ValidateMountPath h (expandTilde rule home) = Inl (PathDenied denied)"
proof -
  from assms(2) obtain d where "firstMatch (expandTilde rule home) home HardcodedDeniedPaths = Some d"
    using firstMatch_exact [of rule HardcodedDeniedPaths home] by blast
  with assms(1) show ?thesis by (simp add: ValidateMountPath_def)
qed

text \<open>The examples of the specification, on \<open>demoHost\<close>.\<close>

lemma netrc_example:
  "pathMatches ''/home/u/.netrc'' ''/home/u/.netrc''
   \<and> \<not> pathMatches ''/home/u/.netrc.bak'' ''/home/u/.netrc''
   \<and> ValidateMountPath demoHost ''/home/u/.netrc'' = Inl (PathDenied ''~/.netrc'')
   \<and> ValidateMountPath demoHost ''/home/u/.netrc.bak'' = Inr ()"
  by code_simp

lemma hard_denied_examples:
  "ValidateMountPath demoHost ''/home/u/.gnupg/private-keys-v1.d'' = Inl (PathDenied ''~/.gnupg'')
   \<and> ValidateMountPath demoHost ''/home/u/.aws/credentials'' = Inl (PathDenied ''~/.aws/credentials'')
   \<and> ValidateMountPath demoHost ''/home/u/.kube/config'' = Inl (PathDenied ''~/.kube/config'')
   \<and> ValidateMountPath demoHost ''/home/u/project'' = Inr ()"
  by code_simp

subsection \<open>User-supplied mounts\<close>

text \<open>
  C1.  The claim: a path given with \<open>--mount\<close> or \<open>--mount-ro\<close> that is, or lies under, a
  credential-controlled rule is rejected with PathRequiresCredential.  \<open>runContainer\<close>
  validates these paths with \<open>ValidateMountPath\<close>, which knows the hard-denied rules only;
  \<open>ValidateMountPathStrict\<close>, documented as the check for user-provided mounts, is not
  called.  On \<open>demoHost\<close> the command line \<open>--mount ~/.ssh --mount-ro ~/.config/gh\<close>
  yields both mounts, although the strict check rejects each of the two paths.
\<close>

theorem runContainer_mounts_accepts_credential_dirs:
  "runContainer_mounts demoHost demoConfig
     \<lparr>workdir = [], mount = [''~/.ssh''], mount_ro = [''~/.config/gh'']\<rparr> =
     Inr [\<lparr>Source = ''/home/u/project'', Target = ''/workspace'', ReadOnly = False\<rparr>,
          \<lparr>Source = ''/home/u/.ssh'', Target = ''/home/u/.ssh'', ReadOnly = False\<rparr>,
          \<lparr>Source = ''/home/u/.config/gh'', Target = ''/home/u/.config/gh'', ReadOnly = True\<rparr>]
   \<and> ValidateMountPathStrict demoHost ''/home/u/.ssh'' = Inl (PathRequiresCredential ''~/.ssh'')
   \<and> ValidateMountPathStrict demoHost ''/home/u/.config/gh'' =
       Inl (PathRequiresCredential ''~/.config/gh'')"
  by code_simp

subsection \<open>The hard-denied tier\<close>

text \<open>
  C2.  The claim: every path equal to or below a hard-denied rule fails validation with
  PathDenied.  \<open>pathMatches\<close> decides "below" by testing whether the relative path starts
  with the two characters \<open>..\<close>; a child whose own name starts with two dots has such a
  relative path too.  On \<open>demoHost\<close> the path \<open>~/.gnupg/..keys\<close> expands to a path below
  \<open>/home/u/.gnupg\<close> and passes validation.
\<close>

theorem ValidateMountPath_accepts_dotdot_named_child:
  "ExpandPath demoHost ''~/.gnupg/..keys'' = Inr ''/home/u/.gnupg/..keys''
   \<and> ValidateMountPath demoHost ''/home/u/.gnupg/..keys'' = Inr ()"
  by code_simp

subsection \<open>The matching predicate\<close>

text \<open>
  C3.  The claim: for absolute paths, \<open>pathMatches P R\<close> holds iff \<open>P = R\<close> or \<open>P\<close> is
  strictly nested inside \<open>R\<close>.  The direction from right to left fails: the path
  \<open>/srv/data/..cache/key\<close> is nested inside \<open>/srv/data\<close>, the relative path computed is
  \<open>..cache/key\<close>, and the prefix test on \<open>..\<close> rejects it.  (The sibling half of the claim
  holds on the example of the specification, see \<open>netrc_example\<close>.)
\<close>

theorem pathMatches_misses_dotdot_named_child:
  "Rel ''/srv/data'' ''/srv/data/..cache/key'' = Some ''..cache/key''
   \<and> pathMatches ''/srv/data/..cache/key'' ''/srv/data'' = False"
  by code_simp

section \<open>Path resolution\<close>

lemma expandHome_Inl:
  "expandHome h path = Inl e \<longleftrightarrow>
     (HasPrefix path ''~/'' \<or> path = ''~'') \<and> UserHomeDir h = None \<and> e = HomeDirError"
  unfolding expandHome_def by (cases "UserHomeDir h") auto

lemma cleanAbs_Inl:
  "cleanAbs h p = Inl e \<longleftrightarrow> \<not> IsAbs (Clean p) \<and> Getwd h = None \<and> e = CwdError"
  unfolding cleanAbs_def Let_def by (cases "Getwd h") auto

lemma resolve_Inl:
  "resolve h q = Inl e \<longleftrightarrow>
     (\<exists>fe. EvalSymlinks h q = Inl fe \<and> \<not> IsNotExist fe \<and> e = ResolveError fe)"
  unfolding resolve_def by (cases "EvalSymlinks h q") auto

lemma resolve_not_exist:
  "EvalSymlinks h q = Inl fe \<Longrightarrow> IsNotExist fe \<Longrightarrow> resolve h q = Inr q"
  by (simp add: resolve_def)

lemma ExpandPath_steps:
  "path \<noteq> [] \<Longrightarrow> expandHome h path = Inr p \<Longrightarrow> cleanAbs h p = Inr q \<Longrightarrow>
   ExpandPath h path = resolve h q"
  by (simp add: ExpandPath_def)

lemma ExpandPath_Inl:
  "ExpandPath h path = Inl e \<longleftrightarrow>
      (path = [] \<and> e = EmptyPath)
    \<or> (path \<noteq> [] \<and> expandHome h path = Inl e)
    \<or> (path \<noteq> [] \<and> (\<exists>p. expandHome h path = Inr p \<and> cleanAbs h p = Inl e))
    \<or> (path \<noteq> [] \<and> (\<exists>p q. expandHome h path = Inr p \<and> cleanAbs h p = Inr q
          \<and> resolve h q = Inl e))"
proof (cases "path = []")
  case True
  then show ?thesis by (auto simp: ExpandPath_def)
next
  case ne: False
  show ?thesis
  proof (cases "expandHome h path")
    case (Inl e')
    with ne show ?thesis by (auto simp: ExpandPath_def)
  next
    case p: (Inr p)
    show ?thesis
    proof (cases "cleanAbs h p")
      case (Inl e')
      with ne p show ?thesis by (auto simp: ExpandPath_def)
    next
      case (Inr q)
      with ne p show ?thesis by (auto simp: ExpandPath_def)
    qed
  qed
qed

lemma expandHome_fresh: "expandHome freshHost ''~/new/dir'' = Inr ''/home/u/new/dir''"
  by code_simp

lemma cleanAbs_fresh: "cleanAbs freshHost ''/home/u/new/dir'' = Inr ''/home/u/new/dir''"
  by code_simp

text \<open>
  C4, as stated.  The claim: resolution fails only when the home directory cannot be
  determined or a filesystem error other than "not found" occurs.  On \<open>demoHost\<close> the home
  directory is known and symlink resolution never fails, yet the empty path is refused;
  and with the same home directory and filesystem, a relative path fails when the
  current directory cannot be determined (it resolves when it can).
\<close>

theorem ExpandPath_other_failures_counterexample:
  "UserHomeDir demoHost = Some ''/home/u''
   \<and> EvalSymlinks demoHost ''/home/u/project/notes'' = Inr ''/home/u/project/notes''
   \<and> ExpandPath demoHost [] = Inl EmptyPath
   \<and> ExpandPath (demoHost\<lparr>Getwd := None\<rparr>) ''notes'' = Inl CwdError
   \<and> ExpandPath demoHost ''notes'' = Inr ''/home/u/project/notes''"
  by code_simp

text \<open>
  C4, amended.  \<open>ExpandPath\<close> fails in exactly four cases: the path is empty; the path
  starts with \<open>~/\<close> or is \<open>~\<close> and the home directory cannot be determined; the cleaned
  path is relative and the current directory cannot be determined; symlink resolution
  of the cleaned absolute path fails with an error other than "not found".  When symlink
  resolution fails with "not found", the result is the cleaned absolute path.
\<close>

theorem ExpandPath_failure_cases:
  "(ExpandPath h path = Inl e \<longleftrightarrow>
      (path = [] \<and> e = EmptyPath)
    \<or> (path \<noteq> [] \<and> (HasPrefix path ''~/'' \<or> path = ''~'') \<and> UserHomeDir h = None
         \<and> e = HomeDirError)
    \<or> (path \<noteq> [] \<and> (\<exists>p. expandHome h path = Inr p \<and> \<not> IsAbs (Clean p)) \<and> Getwd h = None
         \<and> e = CwdError)
    \<or> (path \<noteq> [] \<and> (\<exists>p q fe. expandHome h path = Inr p \<and> cleanAbs h p = Inr q
         \<and> EvalSymlinks h q = Inl fe \<and> \<not> IsNotExist fe \<and> e = ResolveError fe)))
   \<and> (path \<noteq> [] \<and> expandHome h path = Inr p \<and> cleanAbs h p = Inr q
        \<and> EvalSymlinks h q = Inl fe \<and> IsNotExist fe \<longrightarrow> ExpandPath h path = Inr q)"
proof
  show "ExpandPath h path = Inl e \<longleftrightarrow>
      (path = [] \<and> e = EmptyPath)
    \<or> (path \<noteq> [] \<and> (HasPrefix path ''~/'' \<or> path = ''~'') \<and> UserHomeDir h = None
         \<and> e = HomeDirError)
    \<or> (path \<noteq> [] \<and> (\<exists>p. expandHome h path = Inr p \<and> \<not> IsAbs (Clean p)) \<and> Getwd h = None
         \<and> e = CwdError)
    \<or> (path \<noteq> [] \<and> (\<exists>p q fe. expandHome h path = Inr p \<and> cleanAbs h p = Inr q
         \<and> EvalSymlinks h q = Inl fe \<and> \<not> IsNotExist fe \<and> e = ResolveError fe))"
    unfolding ExpandPath_Inl expandHome_Inl cleanAbs_Inl resolve_Inl by blast
next
  show "path \<noteq> [] \<and> expandHome h path = Inr p \<and> cleanAbs h p = Inr q
        \<and> EvalSymlinks h q = Inl fe \<and> IsNotExist fe \<longrightarrow> ExpandPath h path = Inr q"
    by (auto simp: ExpandPath_steps resolve_not_exist)
qed

theorem ExpandPath_failure_cases_witness:
  "''~/new/dir'' \<noteq> [] \<and> expandHome freshHost ''~/new/dir'' = Inr ''/home/u/new/dir''
   \<and> cleanAbs freshHost ''/home/u/new/dir'' = Inr ''/home/u/new/dir''
   \<and> EvalSymlinks freshHost ''/home/u/new/dir'' = Inl ErrNotExist \<and> IsNotExist ErrNotExist
   \<and> ExpandPath freshHost ''~/new/dir'' = Inr ''/home/u/new/dir''"
proof -
  have pre: "''~/new/dir'' \<noteq> []"
    "EvalSymlinks freshHost ''/home/u/new/dir'' = Inl ErrNotExist" "IsNotExist ErrNotExist"
    by (simp_all add: freshHost_def IsNotExist_def)
  with expandHome_fresh cleanAbs_fresh
    ExpandPath_failure_cases [of freshHost "''~/new/dir''" EmptyPath "''/home/u/new/dir''"
          "''/home/u/new/dir''" ErrNotExist]
  show ?thesis by blast
qed

section \<open>Credential collection\<close>

lemma autoDetect_True: "autoDetect h vs"
  by (induction vs) simp_all

lemma shouldEnable_iff: "shouldEnable h setting vs = (setting \<noteq> CredentialDisabled)"
  by (simp add: shouldEnable_def autoDetect_True CredentialEnabled_def CredentialDisabled_def)

lemma Join_demo_claude: "Join [''/home/u'', ''.claude''] = ''/home/u/.claude''"
  by code_simp

lemma Join_demo_gh:
  "Join [''/home/u'', ''.config'', ''gh'', ''hosts.yml''] = ''/home/u/.config/gh/hosts.yml''"
  by code_simp

subsection \<open>The assistant-session collector\<close>

text \<open>
  C5.  When the home directory is known, the authentication mode allows the session
  directory (unset, \<open>auto\<close> or \<open>session\<close>) and the directory \<open>~/.claude\<close> exists: an unset
  session-directory mode gives one read-only mount, \<open>readwrite\<close> gives one writable
  mount, \<open>none\<close> gives no mount.  For every configuration and host the collector returns
  at most one mount, and every mount it returns has the target \<open>/tmp/.claude\<close>.
\<close>

theorem CollectClaudeAuth_session_mount:
  "(UserHomeDir h = Some home \<and> Auth (Claude cfg) \<in> {[], AuthAuto, AuthSession}
      \<and> DirExists h (Join [home, ''.claude'']) \<longrightarrow>
      (SessionDir (Claude cfg) = [] \<longrightarrow>
         fst (CollectClaudeAuth cfg h) =
           [\<lparr>Source = Join [home, ''.claude''], Target = ''/tmp/.claude'', ReadOnly = True\<rparr>]) \<and>
      (SessionDir (Claude cfg) = SessionReadWrite \<longrightarrow>
         fst (CollectClaudeAuth cfg h) =
           [\<lparr>Source = Join [home, ''.claude''], Target = ''/tmp/.claude'', ReadOnly = False\<rparr>]) \<and>
      (SessionDir (Claude cfg) = SessionNone \<longrightarrow> fst (CollectClaudeAuth cfg h) = []))
   \<and> length (fst (CollectClaudeAuth cfg h)) \<le> 1
   \<and> (\<forall>m \<in> set (fst (CollectClaudeAuth cfg h)). Target m = ''/tmp/.claude'')"
  by (auto simp: CollectClaudeAuth_def Let_def AuthAuto_def AuthSession_def SessionReadOnly_def
        SessionReadWrite_def SessionNone_def split: option.splits)

theorem CollectClaudeAuth_session_mount_witness:
  "UserHomeDir demoHost = Some ''/home/u'' \<and> Auth (Claude demoConfig) = AuthAuto
   \<and> DirExists demoHost (Join [''/home/u'', ''.claude''])
   \<and> SessionDir (Claude demoConfig) = SessionReadWrite
   \<and> fst (CollectClaudeAuth demoConfig demoHost) =
        [\<lparr>Source = ''/home/u/.claude'', Target = ''/tmp/.claude'', ReadOnly = False\<rparr>]"
  using CollectClaudeAuth_session_mount [of demoHost "''/home/u''" demoConfig]
  by (simp add: demoHost_def demoConfig_def DirExists_def PathExists_def Join_demo_claude
        AuthAuto_def AuthSession_def SessionReadWrite_def del: Join.simps)

text \<open>
  C10.  Every mount the assistant-session collector returns has its read-only flag equal
  to (session-directory mode = \<open>readonly\<close>), the mode being the configured value with the
  unset value read as \<open>readonly\<close>, as the code resolves it before the comparison.  So a
  set value other than \<open>readonly\<close> and \<open>none\<close>, a misspelling included, gives a writable
  mount of the session directory whenever a mount is produced.
\<close>

theorem session_mount_readonly_flag:
  "(\<forall>m \<in> set (fst (CollectClaudeAuth cfg h)).
      ReadOnly m = ((if SessionDir (Claude cfg) = [] then SessionReadOnly
                     else SessionDir (Claude cfg)) = SessionReadOnly))
   \<and> (UserHomeDir h = Some home \<and> Auth (Claude cfg) \<in> {[], AuthAuto, AuthSession}
        \<and> DirExists h (Join [home, ''.claude''])
        \<and> SessionDir (Claude cfg) \<notin> {[], SessionReadOnly, SessionNone} \<longrightarrow>
        fst (CollectClaudeAuth cfg h) =
          [\<lparr>Source = Join [home, ''.claude''], Target = ''/tmp/.claude'', ReadOnly = False\<rparr>])"
  by (auto simp: CollectClaudeAuth_def Let_def AuthAuto_def AuthSession_def SessionReadOnly_def
        SessionNone_def split: option.splits)

theorem session_mount_readonly_flag_witness:
  "UserHomeDir demoHost = Some ''/home/u'' \<and> Auth (Claude typoConfig) = AuthAuto
   \<and> DirExists demoHost (Join [''/home/u'', ''.claude''])
   \<and> SessionDir (Claude typoConfig) = ''read-only''
   \<and> fst (CollectClaudeAuth typoConfig demoHost) =
        [\<lparr>Source = ''/home/u/.claude'', Target = ''/tmp/.claude'', ReadOnly = False\<rparr>]"
  using session_mount_readonly_flag [of typoConfig demoHost "''/home/u''"]
  by (simp add: demoHost_def typoConfig_def demoConfig_def DirExists_def PathExists_def
        Join_demo_claude AuthAuto_def AuthSession_def SessionReadOnly_def SessionNone_def
        del: Join.simps)

subsection \<open>The external-credential collector\<close>

lemma githubCredentials_setting:
  "(GitHub (Credentials cfg) = CredentialDisabled) = (GitHub (Credentials cfg') = CredentialDisabled)
   \<Longrightarrow> githubCredentials cfg h home st = githubCredentials cfg' h home st"
  by (simp add: githubCredentials_def shouldEnable_iff del: Join.simps)

lemma gcloudCredentials_setting:
  "(GCloud (Credentials cfg) = CredentialDisabled) = (GCloud (Credentials cfg') = CredentialDisabled)
   \<Longrightarrow> gcloudCredentials cfg h home st = gcloudCredentials cfg' h home st"
  by (simp add: gcloudCredentials_def shouldEnable_iff del: Join.simps)

lemma sshCredentials_setting:
  "SSH (Credentials cfg) = SSH (Credentials cfg')
   \<Longrightarrow> sshCredentials cfg h home st = sshCredentials cfg' h home st"
  by (cases st) (simp add: sshCredentials_def collectSSHCredentials_def del: Join.simps)

lemma CollectExternalCredentials_setting:
  assumes "(GitHub (Credentials cfg) = CredentialDisabled) = (GitHub (Credentials cfg') = CredentialDisabled)"
    and "(GCloud (Credentials cfg) = CredentialDisabled) = (GCloud (Credentials cfg') = CredentialDisabled)"
    and "SSH (Credentials cfg) = SSH (Credentials cfg')"
  shows "CollectExternalCredentials cfg h = CollectExternalCredentials cfg' h"
proof (cases "UserHomeDir h")
  case None
  then show ?thesis by (simp add: CollectExternalCredentials_def)
next
  case (Some home)
  have "githubCredentials cfg h home ([], Map.empty) = githubCredentials cfg' h home ([], Map.empty)"
    using assms(1) by (rule githubCredentials_setting)
  moreover have "\<And>st. gcloudCredentials cfg h home st = gcloudCredentials cfg' h home st"
    using assms(2) by (rule gcloudCredentials_setting)
  moreover have "\<And>st. sshCredentials cfg h home st = sshCredentials cfg' h home st"
    using assms(3) by (rule sshCredentials_setting)
  ultimately show ?thesis
    using Some by (simp add: CollectExternalCredentials_def)
qed

text \<open>
  C6.  A service whose policy is \<open>disabled\<close> contributes nothing, on every host: its block
  returns the pair of mounts and environment it was given, so the collector's result is
  the result of the other blocks alone; with both tri-state services disabled and SSH
  not enabled the result is empty.
\<close>

theorem disabled_contributes_nothing:
  "(GitHub (Credentials cfg) = CredentialDisabled \<longrightarrow>
      githubCredentials cfg h home st = st \<and>
      CollectExternalCredentials cfg h =
        (case UserHomeDir h of
           None \<Rightarrow> Inl HomeDirError
         | Some hm \<Rightarrow> Inr (sshCredentials cfg h hm (gcloudCredentials cfg h hm ([], Map.empty)))))
   \<and> (GCloud (Credentials cfg) = CredentialDisabled \<longrightarrow>
      gcloudCredentials cfg h home st = st \<and>
      CollectExternalCredentials cfg h =
        (case UserHomeDir h of
           None \<Rightarrow> Inl HomeDirError
         | Some hm \<Rightarrow> Inr (sshCredentials cfg h hm (githubCredentials cfg h hm ([], Map.empty)))))
   \<and> (GitHub (Credentials cfg) = CredentialDisabled \<and> GCloud (Credentials cfg) = CredentialDisabled
        \<and> \<not> Enabled (SSH (Credentials cfg)) \<and> UserHomeDir h \<noteq> None \<longrightarrow>
      CollectExternalCredentials cfg h = Inr ([], Map.empty))"
  by (auto simp: githubCredentials_def gcloudCredentials_def sshCredentials_def
        CollectExternalCredentials_def shouldEnable_iff split: prod.splits option.splits)

theorem disabled_contributes_nothing_witness:
  "GitHub (Credentials lockedConfig) = CredentialDisabled
   \<and> GCloud (Credentials lockedConfig) = CredentialDisabled
   \<and> \<not> Enabled (SSH (Credentials lockedConfig))
   \<and> UserHomeDir tokenHost \<noteq> None
   \<and> Getenv tokenHost ''GH_TOKEN'' = ''t1''
   \<and> githubCredentials lockedConfig tokenHost ''/home/u'' ([], Map.empty) = ([], Map.empty)
   \<and> gcloudCredentials lockedConfig tokenHost ''/home/u'' ([], Map.empty) = ([], Map.empty)
   \<and> CollectExternalCredentials lockedConfig tokenHost = Inr ([], Map.empty)"
proof -
  have pre: "GitHub (Credentials lockedConfig) = CredentialDisabled"
    "GCloud (Credentials lockedConfig) = CredentialDisabled"
    "\<not> Enabled (SSH (Credentials lockedConfig))"
    "UserHomeDir tokenHost \<noteq> None"
    "Getenv tokenHost ''GH_TOKEN'' = ''t1''"
    by (simp_all add: lockedConfig_def demoConfig_def tokenHost_def demoHost_def
          CredentialDisabled_def)
  with disabled_contributes_nothing [of lockedConfig tokenHost "''/home/u''" "([], Map.empty)"]
  show ?thesis by blast
qed

text \<open>
  C7.  The GitHub block under a policy other than \<open>disabled\<close>: when \<open>GH_TOKEN\<close> is set
  the block only sets \<open>GH_TOKEN\<close> in the environment to its value; when only
  \<open>GITHUB_TOKEN\<close> is set the block only sets \<open>GH_TOKEN\<close> to that value; when neither is
  set the environment is unchanged and the hosts file is mounted if it exists.  Whenever
  the block adds a mount, neither variable is set and the environment is unchanged.
\<close>

theorem github_token_or_file_never_both:
  "GitHub (Credentials cfg) \<noteq> CredentialDisabled \<Longrightarrow>
   (Getenv h ''GH_TOKEN'' \<noteq> [] \<longrightarrow>
      githubCredentials cfg h home (mounts, env) =
        (mounts, env(''GH_TOKEN'' \<mapsto> Getenv h ''GH_TOKEN'')))
   \<and> (Getenv h ''GH_TOKEN'' = [] \<and> Getenv h ''GITHUB_TOKEN'' \<noteq> [] \<longrightarrow>
      githubCredentials cfg h home (mounts, env) =
        (mounts, env(''GH_TOKEN'' \<mapsto> Getenv h ''GITHUB_TOKEN'')))
   \<and> (Getenv h ''GH_TOKEN'' = [] \<and> Getenv h ''GITHUB_TOKEN'' = [] \<longrightarrow>
      githubCredentials cfg h home (mounts, env) =
        (if FileExists h (Join [home, ''.config'', ''gh'', ''hosts.yml''])
         then (mounts @ [\<lparr>Source = Join [home, ''.config'', ''gh'', ''hosts.yml''],
                          Target = ''/root/.config/gh/hosts.yml'', ReadOnly = True\<rparr>], env)
         else (mounts, env)))
   \<and> (fst (githubCredentials cfg h home (mounts, env)) \<noteq> mounts \<longrightarrow>
        Getenv h ''GH_TOKEN'' = [] \<and> Getenv h ''GITHUB_TOKEN'' = []
        \<and> snd (githubCredentials cfg h home (mounts, env)) = env)"
  by (simp add: githubCredentials_def shouldEnable_iff Let_def del: Join.simps)

theorem github_token_or_file_never_both_witness:
  "GitHub (Credentials demoConfig) \<noteq> CredentialDisabled
   \<and> Getenv demoHost ''GH_TOKEN'' = [] \<and> Getenv demoHost ''GITHUB_TOKEN'' = []
   \<and> githubCredentials demoConfig demoHost ''/home/u'' ([], Map.empty) =
       ([\<lparr>Source = ''/home/u/.config/gh/hosts.yml'', Target = ''/root/.config/gh/hosts.yml'',
          ReadOnly = True\<rparr>], Map.empty)"
  using github_token_or_file_never_both [of demoConfig demoHost "''/home/u''" "[]" Map.empty]
  by (simp add: demoHost_def demoConfig_def CredentialDisabled_def FileExists_def PathExists_def
        Join_demo_gh del: Join.simps)

text \<open>
  C9.  \<open>shouldEnable\<close> is false for the setting \<open>disabled\<close> and true for every other
  string, the empty string and misspellings included; for such a setting it returns what
  it returns for \<open>auto\<close>, and the GitHub block, the Google Cloud block and the whole
  collector behave as with the setting \<open>auto\<close>.
\<close>

theorem only_disabled_suppresses:
  "shouldEnable h CredentialDisabled envVars = False
   \<and> (setting \<noteq> CredentialDisabled \<longrightarrow>
        shouldEnable h setting envVars = True
        \<and> shouldEnable h setting envVars = shouldEnable h CredentialAuto envVars
        \<and> githubCredentials (cfg\<lparr>Credentials := (Credentials cfg)\<lparr>GitHub := setting\<rparr>\<rparr>) h home st =
            githubCredentials (cfg\<lparr>Credentials := (Credentials cfg)\<lparr>GitHub := CredentialAuto\<rparr>\<rparr>) h home st
        \<and> gcloudCredentials (cfg\<lparr>Credentials := (Credentials cfg)\<lparr>GCloud := setting\<rparr>\<rparr>) h home st =
            gcloudCredentials (cfg\<lparr>Credentials := (Credentials cfg)\<lparr>GCloud := CredentialAuto\<rparr>\<rparr>) h home st
        \<and> CollectExternalCredentials
             (cfg\<lparr>Credentials := (Credentials cfg)\<lparr>GitHub := setting, GCloud := setting\<rparr>\<rparr>) h =
           CollectExternalCredentials
             (cfg\<lparr>Credentials := (Credentials cfg)\<lparr>GitHub := CredentialAuto, GCloud := CredentialAuto\<rparr>\<rparr>) h)"
proof -
  have auto_on: "CredentialAuto \<noteq> CredentialDisabled"
    by (simp add: CredentialAuto_def CredentialDisabled_def)
  show ?thesis
  proof (intro conjI impI)
    show "shouldEnable h CredentialDisabled envVars = False"
      by (simp add: shouldEnable_iff)
  next
    assume "setting \<noteq> CredentialDisabled"
    then show "shouldEnable h setting envVars = True"
      by (simp add: shouldEnable_iff)
  next
    assume "setting \<noteq> CredentialDisabled"
    then show "shouldEnable h setting envVars = shouldEnable h CredentialAuto envVars"
      using auto_on by (simp add: shouldEnable_iff)
  next
    assume "setting \<noteq> CredentialDisabled"
    then show "githubCredentials (cfg\<lparr>Credentials := (Credentials cfg)\<lparr>GitHub := setting\<rparr>\<rparr>) h home st =
            githubCredentials (cfg\<lparr>Credentials := (Credentials cfg)\<lparr>GitHub := CredentialAuto\<rparr>\<rparr>) h home st"
      using auto_on by (intro githubCredentials_setting) simp
  next
    assume "setting \<noteq> CredentialDisabled"
    then show "gcloudCredentials (cfg\<lparr>Credentials := (Credentials cfg)\<lparr>GCloud := setting\<rparr>\<rparr>) h home st =
            gcloudCredentials (cfg\<lparr>Credentials := (Credentials cfg)\<lparr>GCloud := CredentialAuto\<rparr>\<rparr>) h home st"
      using auto_on by (intro gcloudCredentials_setting) simp
  next
    assume "setting \<noteq> CredentialDisabled"
    then show "CollectExternalCredentials
             (cfg\<lparr>Credentials := (Credentials cfg)\<lparr>GitHub := setting, GCloud := setting\<rparr>\<rparr>) h =
           CollectExternalCredentials
             (cfg\<lparr>Credentials := (Credentials cfg)\<lparr>GitHub := CredentialAuto, GCloud := CredentialAuto\<rparr>\<rparr>) h"
      using auto_on by (intro CollectExternalCredentials_setting) simp_all
  qed
qed

theorem only_disabled_suppresses_witness:
  "''disabeld'' \<noteq> CredentialDisabled
   \<and> shouldEnable tokenHost ''disabeld'' [''GH_TOKEN'', ''GITHUB_TOKEN'']
   \<and> githubCredentials typoConfig tokenHost ''/home/u'' ([], Map.empty) =
       githubCredentials (typoConfig\<lparr>Credentials := (Credentials typoConfig)\<lparr>GitHub := ''auto''\<rparr>\<rparr>)
         tokenHost ''/home/u'' ([], Map.empty)"
  using only_disabled_suppresses [of tokenHost "[''GH_TOKEN'', ''GITHUB_TOKEN'']" "''disabeld''"
          typoConfig "''/home/u''" "([], Map.empty)"]
  by (simp add: typoConfig_def demoConfig_def CredentialDisabled_def CredentialAuto_def)

section \<open>The session runner's exit status\<close>

text \<open>
  C8.  When every step before the wait succeeds, the \<open>select\<close> receives the exit status
  \<open>n\<close> and the output relay has finished, \<open>Run\<close> returns: the error carrying \<open>n\<close> when
  \<open>n \<noteq> 0\<close>, success when \<open>n = 0\<close>.  A nonzero status is returned neither as success nor
  as the cancellation error.
\<close>

theorem Run_exit_status:
  "(memoryLimit = [] \<or> RAMInBytesOk e) \<and> ContainerCreate e = Created \<and> ContainerAttachOk e
   \<and> ContainerStartOk e \<and> (IsTerminal e \<longrightarrow> SetRawTerminalOk e)
   \<and> selected e = StatusCh n \<and> outputDone e \<Longrightarrow>
   Run e memoryLimit = Some (if n = 0 then Inr () else Inl (ExitedWithCode n))
   \<and> (n \<noteq> 0 \<longrightarrow> Run e memoryLimit \<noteq> Some (Inr ())
                \<and> Run e memoryLimit \<noteq> Some (Inl ContextCanceled))"
  by (auto simp: Run_def waitForExit_def)

theorem Run_exit_status_witness:
  "Run (demoEngine 2) ''4g'' = Some (Inl (ExitedWithCode 2))
   \<and> Run (demoEngine 0) ''4g'' = Some (Inr ())"
  using Run_exit_status [of "''4g''" "demoEngine 2" 2] Run_exit_status [of "''4g''" "demoEngine 0" 0]
  by (simp add: demoEngine_def)

end
